theory Spec2Isabelle
  imports Main "HOL-Library.Char_ord" "HOL-Library.List_Lexorder" "HOL-Library.Product_Lexorder"
begin

section \<open>Strings\<close>

text \<open>
  Python strings are modelled as \<open>string\<close>: a \<open>char\<close> stands for a code point below 256.
  \<open>is_space\<close> lists the code points below 256 for which Python's \<open>str.isspace\<close> holds, which
  are the characters \<open>str.strip()\<close> removes and the regular expression class \<open>\s\<close> accepts:
  tab, line feed, vertical tab, form feed, carriage return, the four separators 0x1C..0x1F,
  the space, the next-line control 0x85 and the no-break space 0xA0.
\<close>

definition is_space :: "char \<Rightarrow> bool" where
  "is_space c = (c \<in> set [CHR 0x09, CHR 0x0A, CHR 0x0B, CHR 0x0C, CHR 0x0D,
                           CHR 0x1C, CHR 0x1D, CHR 0x1E, CHR 0x1F, CHR 0x20,
                           CHR 0x85, CHR 0xA0])"

definition lstrip :: "string \<Rightarrow> string" where
  "lstrip s = dropWhile is_space s"

definition rstrip :: "string \<Rightarrow> string" where
  "rstrip s = rev (dropWhile is_space (rev s))"

definition strip :: "string \<Rightarrow> string" where
  "strip s = lstrip (rstrip s)"

definition startswith :: "string \<Rightarrow> string \<Rightarrow> bool" where
  "startswith s p = (take (length p) s = p)"

text \<open>
  \<open>str.upper\<close> and \<open>str.lower\<close> on the ASCII letters; every other character is kept.  \<open>lower\<close>
  serves the case-insensitive match of the month names, whose letters are ASCII, and below
  256 only an ASCII letter matches an ASCII letter when case is ignored.  \<open>upper\<close> is exact
  on ASCII text.
\<close>

definition upper_char :: "char \<Rightarrow> char" where
  "upper_char c =
     (case map_of (zip ''abcdefghijklmnopqrstuvwxyz'' ''ABCDEFGHIJKLMNOPQRSTUVWXYZ'') c of
        None \<Rightarrow> c | Some u \<Rightarrow> u)"

definition lower_char :: "char \<Rightarrow> char" where
  "lower_char c =
     (case map_of (zip ''ABCDEFGHIJKLMNOPQRSTUVWXYZ'' ''abcdefghijklmnopqrstuvwxyz'') c of
        None \<Rightarrow> c | Some l \<Rightarrow> l)"

definition upper :: "string \<Rightarrow> string" where
  "upper s = map upper_char s"

definition lower :: "string \<Rightarrow> string" where
  "lower s = map lower_char s"

section \<open>Exceptions\<close>

text \<open>
  The classes of \<open>Exception\<close> that the code or its collaborators raise.  A function of the
  source that can raise returns a sum, \<open>Inl\<close> carrying the exception.
\<close>

datatype exn =
    AttributeError | ValueError | TypeError | OverflowError
  | HTTPError | ConnectionError | Timeout | ParseError | OtherException

section \<open>Rows\<close>

text \<open>
  A row of a data frame.  \<open>fetch_page\<close> builds rows with the columns \<open>model\<close>, \<open>eol_date\<close>
  and \<open>eosl_date\<close>; \<open>scrape_eol_data\<close> adds the column \<open>vendor\<close>.  A date cell is \<open>None\<close> for
  a null (\<open>None\<close>, \<open>NaN\<close>, \<open>NaT\<close>) and \<open>Some s\<close> for a string.
\<close>

record raw_row =
  model :: string
  eol_date :: "string option"
  eosl_date :: "string option"

record row = raw_row +
  vendor :: string

definition group_key :: "row \<Rightarrow> string \<times> string" where
  "group_key r = (vendor r, model r)"

section \<open>Table extraction: the body of \<open>fetch_page\<close>\<close>

text \<open>
  The parsed page as BeautifulSoup hands it over: a tree of tags and text nodes.  The
  \<open>BeautifulSoup\<close> object is itself a tag (named \<open>[document]\<close>) whose children are the
  top-level nodes.
\<close>

datatype node = Tag string "node list" | NavigableString string

text \<open>All nodes below a tag, in document order (\<open>Tag.descendants\<close>).\<close>

fun descendants :: "node \<Rightarrow> node list" where
  "descendants (NavigableString s) = []"
| "descendants (Tag name contents) = concat (map (\<lambda>c. c # descendants c) contents)"

fun is_tag :: "string \<Rightarrow> node \<Rightarrow> bool" where
  "is_tag name (Tag n contents) = (n = name)"
| "is_tag name (NavigableString s) = False"

definition find_all :: "node \<Rightarrow> string \<Rightarrow> node list" where
  "find_all t name = filter (is_tag name) (descendants t)"

text \<open>\<open>t.find(name)\<close>: the first match of \<open>find_all\<close>, or \<open>None\<close>.\<close>

definition find_first :: "node \<Rightarrow> string \<Rightarrow> node option" where
  "find_first t name = (case find_all t name of [] \<Rightarrow> None | x # xs \<Rightarrow> Some x)"

fun node_strings :: "node \<Rightarrow> string list" where
  "node_strings (NavigableString s) = [s]"
| "node_strings (Tag name contents) = []"

text \<open>
  \<open>t.get_text(strip=True)\<close>: every text node below \<open>t\<close> is stripped, the empty ones are
  dropped, and the rest are joined without a separator.
\<close>

definition get_text :: "node \<Rightarrow> string" where
  "get_text t =
     concat (filter (\<lambda>s. s \<noteq> []) (map strip (concat (map node_strings (descendants t)))))"

definition header_cells :: "node \<Rightarrow> string list" where
  "header_cells t = map get_text (find_all t ''th'')"

text \<open>\<open>{"Model", "EOL Date", "EOSL Date"}.issubset(set(header_cells))\<close>\<close>

definition has_required_headers :: "node \<Rightarrow> bool" where
  "has_required_headers t =
     list_all (\<lambda>h. h \<in> set (header_cells t)) [''Model'', ''EOL Date'', ''EOSL Date'']"

text \<open>The loop over \<open>soup.find_all("table")\<close> that stops at the first table with the headers.\<close>

definition find_table :: "node \<Rightarrow> node option" where
  "find_table soup = find has_required_headers (find_all soup ''table'')"

text \<open>One \<open>tr\<close> of the table body: skipped when it has fewer than four \<open>td\<close> cells.\<close>

definition row_of_tr :: "node \<Rightarrow> raw_row option" where
  "row_of_tr tr =
     (let tds = find_all tr ''td'' in
      if length tds < 4 then None
      else Some \<lparr>model = get_text (tds ! 0),
                 eol_date = Some (get_text (tds ! 1)),
                 eosl_date = Some (get_text (tds ! 2))\<rparr>)"

text \<open>
  The table extraction of \<open>fetch_page\<close>, from the parsed page to the data frame (its list of
  rows).  \<open>table.find("tbody")\<close> is \<open>None\<close> when the table has no \<open>tbody\<close> tag, and
  \<open>None.find_all\<close> raises \<open>AttributeError\<close>.
\<close>

definition extract_table :: "node \<Rightarrow> exn + raw_row list" where
  "extract_table soup =
     (case find_table soup of
        None \<Rightarrow> Inr []
      | Some table \<Rightarrow>
          (case find_first table ''tbody'' of
             None \<Rightarrow> Inl AttributeError
           | Some tbody \<Rightarrow> Inr (List.map_filter row_of_tr (find_all tbody ''tr''))))"

section \<open>Paginated scraping: \<open>scrape_vendor_eol_url\<close>\<close>

text \<open>
  The HTTP collaborator: \<open>requests.get(base_url, params=params, ...)\<close>, \<open>raise_for_status()\<close>
  and the HTML parse of the body, as a function from the URL and the \<open>page\<close> parameter
  (\<open>None\<close> when \<open>params\<close> is empty) to the parsed page or the exception raised.
\<close>

type_synonym http = "string \<Rightarrow> int option \<Rightarrow> exn + node"

definition fetch_page :: "http \<Rightarrow> string \<Rightarrow> int \<Rightarrow> exn + raw_row list" where
  "fetch_page get base_url page =
     (let params = (if page > 1 then Some page else None) in
      case get base_url params of
        Inl e \<Rightarrow> Inl e
      | Inr soup \<Rightarrow> extract_table soup)"

text \<open>
  The \<open>while page <= max_pages\<close> loop.  Its state is the page number and \<open>all_dfs\<close>; the
  model also threads the list of the pages fetched so far, so that the number and the order
  of the fetches can be stated.  An exception of \<open>fetch_page\<close> leaves the loop at once.
\<close>

function scrape_loop ::
  "http \<Rightarrow> string \<Rightarrow> int \<Rightarrow> int \<Rightarrow> raw_row list list \<Rightarrow> int list
     \<Rightarrow> int list \<times> (exn + raw_row list list)" where
  "scrape_loop get base_url max_pages page all_dfs fetched =
     (if page \<le> max_pages then
        (case fetch_page get base_url page of
           Inl e \<Rightarrow> (fetched @ [page], Inl e)
         | Inr df \<Rightarrow>
             if df = [] then (fetched @ [page], Inr all_dfs)
             else scrape_loop get base_url max_pages (page + 1) (all_dfs @ [df])
                    (fetched @ [page]))
      else (fetched, Inr all_dfs))"
  by pat_completeness auto
termination
  by (relation "measure (\<lambda>(get, base_url, max_pages, page, all_dfs, fetched).
        nat (max_pages + 1 - page))") auto

text \<open>
  \<open>scrape_vendor_eol_url\<close> returns the concatenation of \<open>all_dfs\<close> (the empty frame when
  there is none); the first component is the list of pages it fetched, in order.
\<close>

definition scrape_vendor_eol_url ::
  "http \<Rightarrow> string \<Rightarrow> int \<Rightarrow> int list \<times> (exn + raw_row list)" where
  "scrape_vendor_eol_url get base_url max_pages =
     (case scrape_loop get base_url max_pages 1 [] [] of
        (fetched, Inl e) \<Rightarrow> (fetched, Inl e)
      | (fetched, Inr all_dfs) \<Rightarrow> (fetched, Inr (concat all_dfs)))"

text \<open>
  What a page yields, for stating the loop's result: whether \<open>fetch_page\<close> returns a frame
  with at least one row, and the rows it returns (none when it raises).
\<close>

definition nonempty_page :: "http \<Rightarrow> string \<Rightarrow> int \<Rightarrow> bool" where
  "nonempty_page get base_url p =
     (case fetch_page get base_url p of Inl e \<Rightarrow> False | Inr df \<Rightarrow> df \<noteq> [])"

definition page_rows :: "http \<Rightarrow> string \<Rightarrow> int \<Rightarrow> raw_row list" where
  "page_rows get base_url p =
     (case fetch_page get base_url p of Inl e \<Rightarrow> [] | Inr df \<Rightarrow> df)"

subsection \<open>Example pages\<close>

text \<open>
  A page whose table has the three required headers (and a fourth column) and one body
  row for the given model; a page without any table; and two sites: one with three such
  pages followed by pages without a table, one that serves the same table for every page.
\<close>

definition example_page :: "string \<Rightarrow> node" where
  "example_page m =
     Tag ''[document]''
       [Tag ''table''
          [Tag ''thead''
             [Tag ''tr''
                [Tag ''th'' [NavigableString ''Model''],
                 Tag ''th'' [NavigableString ''EOL Date''],
                 Tag ''th'' [NavigableString ''EOSL Date''],
                 Tag ''th'' [NavigableString ''Quote'']]],
           Tag ''tbody''
             [Tag ''tr''
                [Tag ''td'' [Tag ''a'' [NavigableString m]],
                 Tag ''td'' [NavigableString ''Aug 31, 2022''],
                 Tag ''td'' [NavigableString '' Aug 31, 2027 ''],
                 Tag ''td'' [NavigableString ''Get a quote'']]]]]"

definition example_row :: "string \<Rightarrow> raw_row" where
  "example_row m =
     \<lparr>model = m, eol_date = Some ''Aug 31, 2022'', eosl_date = Some ''Aug 31, 2027''\<rparr>"

definition example_no_table :: node where
  "example_no_table = Tag ''[document]'' [Tag ''p'' [NavigableString ''No results'']]"

text \<open>
  A page whose table has the required headers but no \<open>tbody\<close> tag: the rows are direct
  children of \<open>table\<close>, as \<open>html.parser\<close> leaves them when the markup has no \<open>tbody\<close>.
\<close>

definition example_no_tbody :: node where
  "example_no_tbody =
     Tag ''[document]''
       [Tag ''table''
          [Tag ''tr''
             [Tag ''th'' [NavigableString ''Model''],
              Tag ''th'' [NavigableString ''EOL Date''],
              Tag ''th'' [NavigableString ''EOSL Date''],
              Tag ''th'' [NavigableString ''Quote'']],
           Tag ''tr''
             [Tag ''td'' [NavigableString ''M1''],
              Tag ''td'' [NavigableString ''Aug 31, 2022''],
              Tag ''td'' [NavigableString ''Aug 31, 2027''],
              Tag ''td'' [NavigableString ''Get a quote'']]]]"

definition example_site :: http where
  "example_site base_url params =
     (if params = None then Inr (example_page ''M1'')
      else if params = Some 2 then Inr (example_page ''M2'')
      else if params = Some 3 then Inr (example_page ''M3'')
      else Inr example_no_table)"

definition example_endless_site :: http where
  "example_endless_site base_url params = Inr (example_page ''M'')"

section \<open>Vendor discovery: \<open>get_unique_eol_vendors\<close> and \<open>get_unique_children\<close>\<close>

definition BASE_PATH :: string where
  "BASE_PATH = ''https://relutech.com/eol-eosl/''"

definition fallback_vendors :: "string list" where
  "fallback_vendors =
     [''cisco'', ''dell'', ''emc'', ''emc-ecomm'', ''hpe'', ''ibm'', ''juniper'',
      ''netapp-ecomm'', ''nimble'', ''sun-oracle'']"

text \<open>
  One \<open>url\<close> element of the parsed sitemap, as the loop reads it: \<open>None\<close> when it has no
  \<open>loc\<close> child, \<open>Some None\<close> when the \<open>loc\<close> element has no text, \<open>Some (Some s)\<close> otherwise.
\<close>

type_synonym url_elem = "string option option"

text \<open>
  The outcome of the sitemap collaborator (\<open>requests.get\<close>, \<open>raise_for_status\<close>,
  \<open>ET.fromstring\<close>, \<open>root.findall("sm:url", ns)\<close>): the exception raised, or the \<open>url\<close>
  elements in document order.
\<close>

type_synonym sitemap = "exn + url_elem list"

text \<open>
  The body of the loop for a location text: \<open>None\<close> where the source says \<open>continue\<close> or
  adds nothing, \<open>Some child\<close> where it says \<open>children.add(child)\<close>.
\<close>

definition child_of_loc :: "string \<Rightarrow> string option" where
  "child_of_loc text =
     (let loc = strip text in
      if \<not> startswith loc BASE_PATH then None
      else
        let tail = dropWhile (\<lambda>c. c = CHR ''/'') (drop (length BASE_PATH) loc) in
        if tail = [] then None
        else
          let child = takeWhile (\<lambda>c. c \<noteq> CHR ''/'') tail in
          if child \<noteq> [] then Some child else None)"

definition child_of_url :: "url_elem \<Rightarrow> string option" where
  "child_of_url url_elem =
     (case url_elem of
        None \<Rightarrow> None
      | Some None \<Rightarrow> None
      | Some (Some text) \<Rightarrow> if text = [] then None else child_of_loc text)"

text \<open>
  The set \<open>children\<close> after the loop, as the list of its elements in first-insertion order;
  \<open>sorted(children)\<close> is \<open>sort\<close> of it.
\<close>

definition children_of :: "url_elem list \<Rightarrow> string list" where
  "children_of urls = remdups (List.map_filter child_of_url urls)"

definition get_unique_eol_vendors :: "sitemap \<Rightarrow> string list" where
  "get_unique_eol_vendors sm =
     (case sm of
        Inl e \<Rightarrow> fallback_vendors
      | Inr urls \<Rightarrow>
          if children_of urls \<noteq> [] then sort (children_of urls) else fallback_vendors)"

text \<open>\<open>get_unique_children\<close> of \<open>scraper.py\<close>: the same loop with no fallback.\<close>

definition get_unique_children :: "sitemap \<Rightarrow> exn + string list" where
  "get_unique_children sm =
     (case sm of
        Inl e \<Rightarrow> Inl e
      | Inr urls \<Rightarrow> Inr (sort (children_of urls)))"

section \<open>Date normalisation: \<open>parse_date_robust\<close> and \<open>convert_to_utc_iso\<close>\<close>

text \<open>
  A pandas \<open>Timestamp\<close>: its calendar and clock fields and its \<open>tzinfo\<close> (\<open>None\<close> for a naive
  value, otherwise the UTC offset in minutes).  The fields are those of the stored instant
  read in UTC, which for a naive value is its wall clock; so \<open>replace(tzinfo=timezone.utc)\<close>
  on a naive value and \<open>astimezone(timezone.utc)\<close> on an aware one both keep the fields and
  set the zone to UTC.
\<close>

record timestamp =
  year :: nat
  month :: nat
  day :: nat
  hour :: nat
  minute :: nat
  second :: nat
  microsecond :: nat
  nanosecond :: nat
  tzinfo :: "int option"

definition replace_tzinfo_utc :: "timestamp \<Rightarrow> timestamp" where
  "replace_tzinfo_utc x = x\<lparr>tzinfo := Some 0\<rparr>"

definition astimezone_utc :: "timestamp \<Rightarrow> timestamp" where
  "astimezone_utc x = x\<lparr>tzinfo := Some 0\<rparr>"

definition digit_char :: "nat \<Rightarrow> char" where
  "digit_char d = ''0123456789'' ! (d mod 10)"

text \<open>\<open>zero_pad w n\<close> is \<open>f"{n:0wd}"\<close> for a number of at most \<open>w\<close> digits.\<close>

definition zero_pad :: "nat \<Rightarrow> nat \<Rightarrow> string" where
  "zero_pad w n = map (\<lambda>i. digit_char (n div 10 ^ i)) (rev [0..<w])"

definition utcoffset_text :: "int \<Rightarrow> string" where
  "utcoffset_text off =
     (if off < 0 then ''-'' else ''+'') @ zero_pad 2 (nat \<bar>off\<bar> div 60) @ '':'' @
     zero_pad 2 (nat \<bar>off\<bar> mod 60)"

text \<open>
  \<open>Timestamp.isoformat()\<close> with the default \<open>timespec\<close>: the fraction is printed only when
  it is not zero, with six digits, or nine when the \<open>nanosecond\<close> field is not zero.  The
  program calls it only on values whose zone is UTC.
\<close>

definition isoformat :: "timestamp \<Rightarrow> string" where
  "isoformat x =
     zero_pad 4 (year x) @ ''-'' @ zero_pad 2 (month x) @ ''-'' @ zero_pad 2 (day x) @ ''T'' @
     zero_pad 2 (hour x) @ '':'' @ zero_pad 2 (minute x) @ '':'' @ zero_pad 2 (second x) @
     (if nanosecond x = 0 then
        (if microsecond x = 0 then [] else ''.'' @ zero_pad 6 (microsecond x))
      else if microsecond x = 0 then ''.'' @ zero_pad 9 (nanosecond x)
      else ''.'' @ zero_pad 6 (microsecond x) @ zero_pad 3 (nanosecond x)) @
     (case tzinfo x of None \<Rightarrow> [] | Some off \<Rightarrow> utcoffset_text off)"

definition convert_to_utc_iso :: "timestamp option \<Rightarrow> string option" where
  "convert_to_utc_iso x =
     (case x of
        None \<Rightarrow> None
      | Some t \<Rightarrow>
          Some (isoformat (if tzinfo t = None then replace_tzinfo_utc t else astimezone_utc t)))"

subsection \<open>\<open>pd.to_datetime\<close> with the formats \<open>"%b %d, %Y"\<close> and \<open>"%B %d, %Y"\<close>\<close>

text \<open>
  The format is compiled to a regular expression that is matched, ignoring case, against
  the whole string: the month name, \<open>\s+\<close>, the day
  \<open>3[0-1]|[1-2]\d|0[1-9]|[1-9]| [1-9]\<close>, a comma, \<open>\s+\<close>, and the year \<open>\d\d\d\d\<close>.  The
  month names are those of the C locale, in lower case.  No name of a table is a prefix of
  another, and what follows \<open>\s+\<close> never starts with white space, so matching left to
  right without backtracking accepts the same strings with the same groups (the last
  alternative of the day, a space and a digit, is covered by \<open>\s+\<close> and a one-digit day).
\<close>

definition month_abbr :: "string list" where
  "month_abbr = [''jan'', ''feb'', ''mar'', ''apr'', ''may'', ''jun'',
                 ''jul'', ''aug'', ''sep'', ''oct'', ''nov'', ''dec'']"

definition month_name :: "string list" where
  "month_name = [''january'', ''february'', ''march'', ''april'', ''may'', ''june'', ''july'',
                 ''august'', ''september'', ''october'', ''november'', ''december'']"

fun match_name :: "string list \<Rightarrow> nat \<Rightarrow> string \<Rightarrow> (nat \<times> string) option" where
  "match_name [] i s = None"
| "match_name (n # ns) i s =
     (if lower (take (length n) s) = n then Some (i, drop (length n) s)
      else match_name ns (Suc i) s)"

definition skip_spaces :: "string \<Rightarrow> string option" where
  "skip_spaces s =
     (case s of
        [] \<Rightarrow> None
      | c # cs \<Rightarrow> if is_space c then Some (dropWhile is_space cs) else None)"

definition digit_val :: "char \<Rightarrow> nat option" where
  "digit_val c = map_of (zip ''0123456789'' [0, 1, 2, 3, 4, 5, 6, 7, 8, 9]) c"

definition two_digit_day :: "nat \<Rightarrow> nat \<Rightarrow> bool" where
  "two_digit_day a b =
     (if a = 3 then b \<le> 1 else if a = 1 \<or> a = 2 then True else if a = 0 then 1 \<le> b else False)"

fun parse_day :: "string \<Rightarrow> (nat \<times> string) option" where
  "parse_day [] = None"
| "parse_day [c] =
     (case digit_val c of
        None \<Rightarrow> None
      | Some a \<Rightarrow> if 1 \<le> a then Some (a, []) else None)"
| "parse_day (c # c' # cs) =
     (case digit_val c of
        None \<Rightarrow> None
      | Some a \<Rightarrow>
          (case digit_val c' of
             None \<Rightarrow> if 1 \<le> a then Some (a, c' # cs) else None
           | Some b \<Rightarrow>
               if two_digit_day a b then Some (10 * a + b, cs)
               else if 1 \<le> a then Some (a, c' # cs) else None))"

fun parse_year :: "string \<Rightarrow> nat option" where
  "parse_year [c1, c2, c3, c4] =
     (case (digit_val c1, digit_val c2, digit_val c3, digit_val c4) of
        (Some a, Some b, Some c, Some d) \<Rightarrow> Some (1000 * a + 100 * b + 10 * c + d)
      | _ \<Rightarrow> None)"
| "parse_year s = None"

text \<open>The groups of the match: year, month (from 1) and day.\<close>

definition match_format :: "string list \<Rightarrow> string \<Rightarrow> (nat \<times> nat \<times> nat) option" where
  "match_format names s =
     (case match_name names 1 s of
        None \<Rightarrow> None
      | Some (m, s1) \<Rightarrow>
     (case skip_spaces s1 of
        None \<Rightarrow> None
      | Some s2 \<Rightarrow>
     (case parse_day s2 of
        None \<Rightarrow> None
      | Some (d, s3) \<Rightarrow>
     (case s3 of
        [] \<Rightarrow> None
      | c # s4 \<Rightarrow>
          if c = CHR 0x2C then
            (case skip_spaces s4 of
               None \<Rightarrow> None
             | Some s5 \<Rightarrow>
            (case parse_year s5 of
               None \<Rightarrow> None
             | Some y \<Rightarrow> Some (y, m, d)))
          else None))))"

definition is_leap :: "nat \<Rightarrow> bool" where
  "is_leap y = (y mod 4 = 0 \<and> (if y mod 100 = 0 then y mod 400 = 0 else True))"

definition days_in_month :: "nat \<Rightarrow> nat \<Rightarrow> nat" where
  "days_in_month y m =
     (if m = 2 then (if is_leap y then 29 else 28)
      else if m = 4 \<or> m = 6 \<or> m = 9 \<or> m = 11 then 30 else 31)"

text \<open>The naive timestamp at midnight of a date.\<close>

definition midnight :: "nat \<Rightarrow> nat \<Rightarrow> nat \<Rightarrow> timestamp" where
  "midnight y m d =
     \<lparr>year = y, month = m, day = d, hour = 0, minute = 0, second = 0,
      microsecond = 0, nanosecond = 0, tzinfo = None\<rparr>"

text \<open>
  \<open>pd.to_datetime\<close> builds a timestamp of nanosecond resolution, a signed 64-bit count of
  nanoseconds since 1970: it holds the instants from 1677-09-21 00:12:43.145224193 to
  2262-04-11 23:47:16.854775807, so the midnights it holds are those of the dates from
  1677-09-22 to 2262-04-11.
\<close>

definition in_timestamp_range :: "nat \<Rightarrow> nat \<Rightarrow> nat \<Rightarrow> bool" where
  "in_timestamp_range y m d =
     ((1677 < y \<or> (y = 1677 \<and> (9 < m \<or> (m = 9 \<and> 22 \<le> d)))) \<and>
      (y < 2262 \<or> (y = 2262 \<and> (m < 4 \<or> (m = 4 \<and> d \<le> 11)))))"

text \<open>
  \<open>pd.to_datetime(date_str, format=..., errors="coerce")\<close>: \<open>None\<close> (\<open>NaT\<close>) when the string
  does not match, when the groups are no calendar date (the year 0, a day beyond the end
  of the month) or when the date is outside the range of a timestamp; else the naive
  timestamp at midnight.
\<close>

definition to_datetime_format :: "string list \<Rightarrow> string \<Rightarrow> timestamp option" where
  "to_datetime_format names s =
     (case match_format names s of
        None \<Rightarrow> None
      | Some (y, m, d) \<Rightarrow>
          if y < 1 \<or> days_in_month y m < d then None
          else if in_timestamp_range y m d then Some (midnight y m d)
          else None)"

subsection \<open>\<open>parse_date_robust\<close>\<close>

text \<open>
  The two general-purpose parsers are collaborators: \<open>to_datetime_flexible\<close> is
  \<open>pd.to_datetime(date_str, errors="coerce")\<close>, \<open>HAS_DATEUTIL\<close> the flag set at import, and
  \<open>dateutil_parse\<close> the body of the \<open>try\<close>, \<open>pd.Timestamp(date_parser.parse(date_str,
  fuzzy=False))\<close>, with the exception it raises.
\<close>

record date_lib =
  to_datetime_flexible :: "string \<Rightarrow> timestamp option"
  HAS_DATEUTIL :: bool
  dateutil_parse :: "string \<Rightarrow> exn + timestamp"

text \<open>The classes named by \<open>except (ValueError, TypeError, AttributeError)\<close>.\<close>

definition caught :: "exn \<Rightarrow> bool" where
  "caught e = (e = ValueError \<or> e = TypeError \<or> e = AttributeError)"

definition parse_date_robust :: "date_lib \<Rightarrow> string option \<Rightarrow> exn + timestamp option" where
  "parse_date_robust lib cell =
     (case cell of
        None \<Rightarrow> Inr None
      | Some raw \<Rightarrow>
          if raw = [] \<or> strip raw = [] then Inr None
          else
            let date_str = strip raw in
            (case to_datetime_format month_abbr date_str of
               Some dt \<Rightarrow> Inr (Some dt)
             | None \<Rightarrow>
            (case to_datetime_format month_name date_str of
               Some dt \<Rightarrow> Inr (Some dt)
             | None \<Rightarrow>
            (case to_datetime_flexible lib date_str of
               Some dt \<Rightarrow> Inr (Some dt)
             | None \<Rightarrow>
                 if HAS_DATEUTIL lib then
                   (case dateutil_parse lib date_str of
                      Inr dt \<Rightarrow> Inr (Some dt)
                    | Inl e \<Rightarrow> if caught e then Inr None else Inl e)
                 else Inr None))))"

text \<open>
  What the two \<open>apply\<close> calls of \<open>post_process_eol_df\<close> do to one cell of a date column:
  \<open>parse_date_robust\<close>, then \<open>convert_to_utc_iso\<close>.  This composition is what the
  specification calls \<open>normalize\<close>.
\<close>

definition normalize_date :: "date_lib \<Rightarrow> string option \<Rightarrow> exn + string option" where
  "normalize_date lib cell =
     (case parse_date_robust lib cell of
        Inl e \<Rightarrow> Inl e
      | Inr dt \<Rightarrow> Inr (convert_to_utc_iso dt))"

subsection \<open>The strings that match a format\<close>



subsection \<open>Example collaborators\<close>

text \<open>
  General-purpose parsers that reject every string: the flexible pandas parse returns
  \<open>NaT\<close>, and \<open>dateutil\<close> raises the given exception.
\<close>

definition rejecting_lib :: "exn \<Rightarrow> date_lib" where
  "rejecting_lib e =
     \<lparr>to_datetime_flexible = (\<lambda>s. None), HAS_DATEUTIL = True,
      dateutil_parse = (\<lambda>s. Inl e)\<rparr>"

section \<open>Dedup / merge: \<open>remove_duplicates_and_merge\<close>\<close>

text \<open>
  \<open>first_non_null\<close> is the loop \<open>for val in series: if pd.notna(val) and val is not None
  and str(val).strip() != "": return val\<close>, followed by \<open>return None\<close>.
\<close>

fun first_non_null :: "string option list \<Rightarrow> string option" where
  "first_non_null [] = None"
| "first_non_null (val # series) =
     (case val of
        None \<Rightarrow> first_non_null series
      | Some s \<Rightarrow> if strip s \<noteq> [] then Some s else first_non_null series)"

text \<open>
  \<open>df.groupby(["vendor", "model"])\<close> with pandas' default \<open>sort=True\<close>: the groups are the
  distinct keys in ascending order (tuples of strings, compared lexicographically), and each
  group holds its rows in their original order.  \<open>agg\<close> applies \<open>first_non_null\<close> to each date
  column of each group, and \<open>reset_index\<close> turns the keys back into the columns \<open>vendor\<close> and
  \<open>model\<close>.  The table has no column besides the key and the two dates, and both key columns
  exist, so the early \<open>return df\<close> and the \<open>"first"\<close> aggregation are not reached.
\<close>

definition group_rows :: "row list \<Rightarrow> string \<times> string \<Rightarrow> row list" where
  "group_rows df k = filter (\<lambda>r. group_key r = k) df"

definition agg :: "row list \<Rightarrow> string \<times> string \<Rightarrow> row" where
  "agg df k =
     \<lparr>model = snd k,
      eol_date = first_non_null (map eol_date (group_rows df k)),
      eosl_date = first_non_null (map eosl_date (group_rows df k)),
      vendor = fst k\<rparr>"

definition remove_duplicates_and_merge :: "row list \<Rightarrow> row list" where
  "remove_duplicates_and_merge df = map (agg df) (sort (remdups (map group_key df)))"

text \<open>The test of \<open>first_non_null\<close>: the value is neither null nor blank.\<close>

definition non_blank :: "string option \<Rightarrow> bool" where
  "non_blank v = (case v of None \<Rightarrow> False | Some s \<Rightarrow> strip s \<noteq> [])"

section \<open>\<open>post_process_eol_df\<close>\<close>

text \<open>\<open>Series.apply\<close>: the function is applied cell by cell, and the first exception ends it.\<close>

fun apply_series :: "('a \<Rightarrow> exn + 'b) \<Rightarrow> 'a list \<Rightarrow> exn + 'b list" where
  "apply_series f [] = Inr []"
| "apply_series f (x # xs) =
     (case f x of
        Inl e \<Rightarrow> Inl e
      | Inr y \<Rightarrow> (case apply_series f xs of Inl e \<Rightarrow> Inl e | Inr ys \<Rightarrow> Inr (y # ys)))"

definition set_dates :: "row \<Rightarrow> string option \<times> string option \<Rightarrow> row" where
  "set_dates r ds = r\<lparr>eol_date := fst ds, eosl_date := snd ds\<rparr>"

text \<open>
  The vendor column is upper-cased, then the column \<open>eol_date\<close> is parsed and converted,
  then the column \<open>eosl_date\<close>, and the result goes through \<open>remove_duplicates_and_merge\<close>.
\<close>

definition post_process_eol_df :: "date_lib \<Rightarrow> row list \<Rightarrow> exn + row list" where
  "post_process_eol_df lib df =
     (let processed = map (\<lambda>r. r\<lparr>vendor := upper (vendor r)\<rparr>) df in
      case apply_series (parse_date_robust lib) (map eol_date processed) of
        Inl e \<Rightarrow> Inl e
      | Inr eols \<Rightarrow>
     (case apply_series (parse_date_robust lib) (map eosl_date processed) of
        Inl e \<Rightarrow> Inl e
      | Inr eosls \<Rightarrow>
          Inr (remove_duplicates_and_merge
                 (map2 set_dates processed
                    (zip (map convert_to_utc_iso eols) (map convert_to_utc_iso eosls))))))"

subsection \<open>Example rows\<close>

text \<open>
  Two raw rows for the same vendor and model, each with one date and one empty cell, and
  the row they merge into once the dates are normalised.
\<close>

definition example_duplicates :: "row list" where
  "example_duplicates =
     [\<lparr>model = ''ModelX'', eol_date = Some ''Aug 1, 2020'', eosl_date = Some '''',
       vendor = ''CISCO''\<rparr>,
      \<lparr>model = ''ModelX'', eol_date = Some '''', eosl_date = Some ''Sep 1, 2021'',
       vendor = ''CISCO''\<rparr>]"

definition example_merged :: row where
  "example_merged =
     \<lparr>model = ''ModelX'', eol_date = Some ''2020-08-01T00:00:00+00:00'',
      eosl_date = Some ''2021-09-01T00:00:00+00:00'', vendor = ''CISCO''\<rparr>"

text \<open>
  Five raw rows with three keys, in the order of arrival, the rows they merge into, and the
  same five rows with their dates already normalised.
\<close>

definition example_mixed :: "row list" where
  "example_mixed =
     [\<lparr>model = ''ModelX'', eol_date = Some ''Aug 1, 2020'', eosl_date = Some '''',
       vendor = ''cisco''\<rparr>,
      \<lparr>model = ''ModelY'', eol_date = Some ''Jan 5, 2019'', eosl_date = Some ''Feb 6, 2024'',
       vendor = ''cisco''\<rparr>,
      \<lparr>model = ''ModelX'', eol_date = Some '''', eosl_date = Some ''Mar 3, 2023'',
       vendor = ''dell''\<rparr>,
      \<lparr>model = ''ModelX'', eol_date = Some ''Jul 7, 2021'', eosl_date = Some ''Sep 1, 2021'',
       vendor = ''cisco''\<rparr>,
      \<lparr>model = ''ModelY'', eol_date = Some ''   '', eosl_date = Some '''',
       vendor = ''cisco''\<rparr>]"

definition example_mixed_merged :: "row list" where
  "example_mixed_merged =
     [\<lparr>model = ''ModelX'', eol_date = Some ''2020-08-01T00:00:00+00:00'',
       eosl_date = Some ''2021-09-01T00:00:00+00:00'', vendor = ''CISCO''\<rparr>,
      \<lparr>model = ''ModelY'', eol_date = Some ''2019-01-05T00:00:00+00:00'',
       eosl_date = Some ''2024-02-06T00:00:00+00:00'', vendor = ''CISCO''\<rparr>,
      \<lparr>model = ''ModelX'', eol_date = None,
       eosl_date = Some ''2023-03-03T00:00:00+00:00'', vendor = ''DELL''\<rparr>]"

definition example_mixed_normalized :: "row list" where
  "example_mixed_normalized =
     [\<lparr>model = ''ModelX'', eol_date = Some ''2020-08-01T00:00:00+00:00'', eosl_date = None,
       vendor = ''CISCO''\<rparr>,
      \<lparr>model = ''ModelY'', eol_date = Some ''2019-01-05T00:00:00+00:00'',
       eosl_date = Some ''2024-02-06T00:00:00+00:00'', vendor = ''CISCO''\<rparr>,
      \<lparr>model = ''ModelX'', eol_date = None, eosl_date = Some ''2023-03-03T00:00:00+00:00'',
       vendor = ''DELL''\<rparr>,
      \<lparr>model = ''ModelX'', eol_date = Some ''2021-07-07T00:00:00+00:00'',
       eosl_date = Some ''2021-09-01T00:00:00+00:00'', vendor = ''CISCO''\<rparr>,
      \<lparr>model = ''ModelY'', eol_date = None, eosl_date = None, vendor = ''CISCO''\<rparr>]"

section \<open>Properties of the dedup / merge step\<close>

lemma group_key_agg: "group_key (agg df k) = k"
  by (simp add: agg_def group_key_def)

lemma keys_of_merge:
  "map group_key (remove_duplicates_and_merge df) = sort (remdups (map group_key df))"
  by (simp add: remove_duplicates_and_merge_def o_def group_key_agg)

lemma first_non_null_cases:
  "first_non_null vs = None \<or> (\<exists>s. first_non_null vs = Some s \<and> strip s \<noteq> [])"
  by (induction vs) (auto split: option.splits)

lemma first_non_null_single:
  "first_non_null [first_non_null vs] = first_non_null vs"
  using first_non_null_cases [of vs] by auto

lemma sort_remdups_keys:
  "distinct ks \<Longrightarrow> sorted ks \<Longrightarrow> sort (remdups ks) = ks"
  by (simp add: distinct_remdups_id sorted_sort_id)

lemma group_rows_merge:
  assumes "distinct ks" "k \<in> set ks"
  shows "filter (\<lambda>r. group_key r = k) (map (agg df) ks) = [agg df k]"
proof -
  have "filter (\<lambda>r. group_key r = k) (map (agg df) ks) = map (agg df) (filter (\<lambda>j. j = k) ks)"
    by (simp add: filter_map o_def group_key_agg)
  also have "filter (\<lambda>j. j = k) ks = [k]"
    using assms by (induction ks) (auto simp: filter_empty_conv)
  finally show ?thesis by simp
qed

lemma agg_idem:
  assumes "distinct ks" "k \<in> set ks"
  shows "agg (map (agg df) ks) k = agg df k"
proof -
  have g: "group_rows (map (agg df) ks) k = [agg df k]"
    using assms by (simp add: group_rows_def group_rows_merge)
  have "agg (map (agg df) ks) k =
        \<lparr>model = snd k,
         eol_date = first_non_null [eol_date (agg df k)],
         eosl_date = first_non_null [eosl_date (agg df k)],
         vendor = fst k\<rparr>"
    unfolding agg_def [of "map (agg df) ks"] g by simp
  also have "\<dots> = agg df k"
    by (simp add: agg_def first_non_null_single del: first_non_null.simps)
  finally show ?thesis .
qed

text \<open>
  Claim C4.  The output of the dedup / merge step holds exactly one row for each distinct
  (vendor, model) pair of its input: no key of the input is missing from the output, the
  output has no key that the input lacks, and no key occurs in two output rows.
\<close>

theorem dedup_one_row_per_key:
  "distinct (map group_key (remove_duplicates_and_merge df)) \<and>
   set (map group_key (remove_duplicates_and_merge df)) = set (map group_key df)"
  by (simp add: keys_of_merge)

text \<open>
  Claim C9.  The dedup / merge step is idempotent: applied to its own output it returns
  that output unchanged.
\<close>

theorem dedup_idempotent:
  "remove_duplicates_and_merge (remove_duplicates_and_merge df) = remove_duplicates_and_merge df"
proof -
  let ?ks = "sort (remdups (map group_key df))"
  have d: "distinct ?ks" and s: "sorted ?ks" by simp_all
  have k: "map group_key (remove_duplicates_and_merge df) = ?ks" by (rule keys_of_merge)
  have "remove_duplicates_and_merge (remove_duplicates_and_merge df)
        = map (agg (remove_duplicates_and_merge df)) ?ks"
    unfolding remove_duplicates_and_merge_def [of "remove_duplicates_and_merge df"] k
    using d s by (simp add: sort_remdups_keys)
  also have "\<dots> = map (agg (map (agg df) ?ks)) ?ks"
    by (simp add: remove_duplicates_and_merge_def)
  also have "\<dots> = map (agg df) ?ks"
    using d by (intro map_cong refl agg_idem)
  finally show ?thesis by (simp add: remove_duplicates_and_merge_def)
qed

text \<open>
  Claim C10.  The rows of the dedup / merge output are in strictly ascending lexicographic
  order of their (vendor, model) key, whatever the order in which the rows arrived; so the
  output order is not the arrival order: two rows that arrive as vendor B, then vendor A,
  leave as vendor A, then vendor B.
\<close>

theorem dedup_output_sorted_by_key:
  "sorted_wrt (<) (map group_key (remove_duplicates_and_merge df)) \<and>
   remove_duplicates_and_merge
     [\<lparr>model = ''m'', eol_date = None, eosl_date = Some ''x'', vendor = ''B''\<rparr>,
      \<lparr>model = ''m'', eol_date = Some ''y'', eosl_date = None, vendor = ''A''\<rparr>] =
     [\<lparr>model = ''m'', eol_date = Some ''y'', eosl_date = None, vendor = ''A''\<rparr>,
      \<lparr>model = ''m'', eol_date = None, eosl_date = Some ''x'', vendor = ''B''\<rparr>]"
proof
  show "sorted_wrt (<) (map group_key (remove_duplicates_and_merge df))"
    by (simp add: keys_of_merge strict_sorted_iff)
  show "remove_duplicates_and_merge
     [\<lparr>model = ''m'', eol_date = None, eosl_date = Some ''x'', vendor = ''B''\<rparr>,
      \<lparr>model = ''m'', eol_date = Some ''y'', eosl_date = None, vendor = ''A''\<rparr>] =
     [\<lparr>model = ''m'', eol_date = Some ''y'', eosl_date = None, vendor = ''A''\<rparr>,
      \<lparr>model = ''m'', eol_date = None, eosl_date = Some ''x'', vendor = ''B''\<rparr>]"
    by (simp add: remove_duplicates_and_merge_def agg_def group_rows_def group_key_def
        strip_def lstrip_def rstrip_def is_space_def)
qed

section \<open>Properties of the paginated scraper\<close>

lemma upto_split_first: "i \<le> j \<Longrightarrow> [i..j] = i # [i + 1..j]"
  by (simp add: upto_rec1)

lemma scrape_loop_empty_page:
  assumes "page \<le> n" "n \<le> max_pages"
    and "\<And>p. page \<le> p \<Longrightarrow> p < n \<Longrightarrow> nonempty_page get base_url p"
    and "fetch_page get base_url n = Inr []"
  shows "scrape_loop get base_url max_pages page all_dfs fetched =
           (fetched @ [page..n], Inr (all_dfs @ map (page_rows get base_url) [page..n - 1]))"
  using assms
proof (induction "nat (n - page)" arbitrary: page all_dfs fetched)
  case 0
  then have "page = n" by simp
  with 0 show ?case by (subst scrape_loop.simps) simp
next
  case (Suc k)
  then have lt: "page < n" by linarith
  with Suc.prems obtain df where df: "fetch_page get base_url page = Inr df" "df \<noteq> []"
    by (auto simp: nonempty_page_def split: sum.splits dest!: Suc.prems(3)[of page, simplified])
  have rows: "page_rows get base_url page = df" by (simp add: page_rows_def df)
  have "scrape_loop get base_url max_pages (page + 1) (all_dfs @ [df]) (fetched @ [page]) =
          ((fetched @ [page]) @ [page + 1..n],
           Inr ((all_dfs @ [df]) @ map (page_rows get base_url) [page + 1..n - 1]))"
    using Suc.hyps(2) lt Suc.prems by (intro Suc.hyps(1)) auto
  moreover have "[page..n] = page # [page + 1..n]" "[page..n - 1] = page # [page + 1..n - 1]"
    using lt by (simp_all add: upto_rec1)
  ultimately show ?case
    using lt Suc.prems(2) df by (subst scrape_loop.simps) (simp add: rows)
qed

lemma scrape_loop_all_nonempty:
  assumes "page \<le> max_pages + 1"
    and "\<And>p. page \<le> p \<Longrightarrow> p \<le> max_pages \<Longrightarrow> nonempty_page get base_url p"
  shows "scrape_loop get base_url max_pages page all_dfs fetched =
           (fetched @ [page..max_pages],
            Inr (all_dfs @ map (page_rows get base_url) [page..max_pages]))"
  using assms
proof (induction "nat (max_pages + 1 - page)" arbitrary: page all_dfs fetched)
  case 0
  then have "page = max_pages + 1" by simp
  then show ?case by (subst scrape_loop.simps) simp
next
  case (Suc k)
  then have le: "page \<le> max_pages" by linarith
  with Suc.prems obtain df where df: "fetch_page get base_url page = Inr df" "df \<noteq> []"
    by (auto simp: nonempty_page_def split: sum.splits dest!: Suc.prems(2)[of page, simplified])
  have rows: "page_rows get base_url page = df" by (simp add: page_rows_def df)
  have "scrape_loop get base_url max_pages (page + 1) (all_dfs @ [df]) (fetched @ [page]) =
          ((fetched @ [page]) @ [page + 1..max_pages],
           Inr ((all_dfs @ [df]) @ map (page_rows get base_url) [page + 1..max_pages]))"
    using Suc.hyps(2) le Suc.prems by (intro Suc.hyps(1)) auto
  moreover have "[page..max_pages] = page # [page + 1..max_pages]"
    using le by (simp add: upto_rec1)
  ultimately show ?case
    using le df by (subst scrape_loop.simps) (simp add: rows)
qed

lemma nonempty_pageI:
  "fetch_page get base_url p = Inr df \<Longrightarrow> df \<noteq> [] \<Longrightarrow> nonempty_page get base_url p"
  by (simp add: nonempty_page_def)

lemma page_rows_eq: "fetch_page get base_url p = Inr df \<Longrightarrow> page_rows get base_url p = df"
  by (simp add: page_rows_def)

lemma scrape_vendor_empty_page:
  assumes "1 \<le> n" "n \<le> max_pages"
    and "\<And>p. 1 \<le> p \<Longrightarrow> p < n \<Longrightarrow> nonempty_page get base_url p"
    and "fetch_page get base_url n = Inr []"
  shows "scrape_vendor_eol_url get base_url max_pages =
           ([1..n], Inr (concat (map (page_rows get base_url) [1..n - 1])))"
  using scrape_loop_empty_page [OF assms, of "[]" "[]"]
  by (simp add: scrape_vendor_eol_url_def)

lemma scrape_vendor_all_nonempty:
  assumes "\<And>p. 1 \<le> p \<Longrightarrow> p \<le> max_pages \<Longrightarrow> nonempty_page get base_url p"
    and "0 \<le> max_pages"
  shows "scrape_vendor_eol_url get base_url max_pages =
           ([1..max_pages], Inr (concat (map (page_rows get base_url) [1..max_pages])))"
  using scrape_loop_all_nonempty [of 1 max_pages get base_url "[]" "[]"] assms
  by (simp add: scrape_vendor_eol_url_def)

lemma upto_1_4: "[1..4::int] = [1, 2, 3, 4]" "[1..3::int] = [1, 2, 3]" "[1..2::int] = [1, 2]"
  by (simp_all add: upto_rec1)

text \<open>
  Claim C1.  With \<open>max_pages\<close> at least 1, the scraper fetches the pages 1, 2, ... in order.
  It stops at the first page \<open>n\<close> (within \<open>max_pages\<close>) whose table is empty, having fetched
  exactly the pages 1 to \<open>n\<close>, and returns the rows of the pages 1 to \<open>n - 1\<close> in page
  order; and when every page up to \<open>max_pages\<close> has rows it fetches exactly the pages 1 to
  \<open>max_pages\<close> and returns all their rows in page order.  In particular, with three
  non-empty pages and an empty page 4 (and \<open>max_pages\<close> at least 4) it makes the four
  fetches 1, 2, 3, 4 and returns the rows of the pages 1 to 3; and with \<open>max_pages = 2\<close> and
  non-empty pages it makes the two fetches 1, 2 and returns the rows of page 1 followed by
  those of page 2.
\<close>

theorem scrape_vendor_pagination:
  "(1 \<le> n \<and> n \<le> max_pages \<and> (\<forall>p. 1 \<le> p \<and> p < n \<longrightarrow> nonempty_page get base_url p) \<and>
      fetch_page get base_url n = Inr [] \<longrightarrow>
    scrape_vendor_eol_url get base_url max_pages =
      ([1..n], Inr (concat (map (page_rows get base_url) [1..n - 1])))) \<and>
   (1 \<le> max_pages \<and> (\<forall>p. 1 \<le> p \<and> p \<le> max_pages \<longrightarrow> nonempty_page get base_url p) \<longrightarrow>
    scrape_vendor_eol_url get base_url max_pages =
      ([1..max_pages], Inr (concat (map (page_rows get base_url) [1..max_pages])))) \<and>
   (4 \<le> max_pages \<and>
      fetch_page get base_url 1 = Inr df1 \<and> df1 \<noteq> [] \<and>
      fetch_page get base_url 2 = Inr df2 \<and> df2 \<noteq> [] \<and>
      fetch_page get base_url 3 = Inr df3 \<and> df3 \<noteq> [] \<and>
      fetch_page get base_url 4 = Inr [] \<longrightarrow>
    scrape_vendor_eol_url get base_url max_pages = ([1, 2, 3, 4], Inr (df1 @ df2 @ df3)) \<and>
    length (fst (scrape_vendor_eol_url get base_url max_pages)) = 4) \<and>
   (fetch_page get base_url 1 = Inr df1 \<and> df1 \<noteq> [] \<and>
      fetch_page get base_url 2 = Inr df2 \<and> df2 \<noteq> [] \<longrightarrow>
    scrape_vendor_eol_url get base_url 2 = ([1, 2], Inr (df1 @ df2)) \<and>
    length (fst (scrape_vendor_eol_url get base_url 2)) = 2)"
proof (intro conjI impI)
  assume "1 \<le> n \<and> n \<le> max_pages \<and> (\<forall>p. 1 \<le> p \<and> p < n \<longrightarrow> nonempty_page get base_url p) \<and>
      fetch_page get base_url n = Inr []"
  then show "scrape_vendor_eol_url get base_url max_pages =
      ([1..n], Inr (concat (map (page_rows get base_url) [1..n - 1])))"
    by (intro scrape_vendor_empty_page) auto
next
  assume "1 \<le> max_pages \<and> (\<forall>p. 1 \<le> p \<and> p \<le> max_pages \<longrightarrow> nonempty_page get base_url p)"
  then show "scrape_vendor_eol_url get base_url max_pages =
      ([1..max_pages], Inr (concat (map (page_rows get base_url) [1..max_pages])))"
    by (intro scrape_vendor_all_nonempty) auto
next
  assume a: "4 \<le> max_pages \<and>
      fetch_page get base_url 1 = Inr df1 \<and> df1 \<noteq> [] \<and>
      fetch_page get base_url 2 = Inr df2 \<and> df2 \<noteq> [] \<and>
      fetch_page get base_url 3 = Inr df3 \<and> df3 \<noteq> [] \<and>
      fetch_page get base_url 4 = Inr []"
  have ne: "nonempty_page get base_url p" if "1 \<le> p" "p < 4" for p
  proof -
    from that have "p = 1 \<or> p = 2 \<or> p = 3" by arith
    with a show ?thesis by (auto intro: nonempty_pageI)
  qed
  have "scrape_vendor_eol_url get base_url max_pages =
          ([1..4], Inr (concat (map (page_rows get base_url) [1..4 - 1])))"
    using a ne by (intro scrape_vendor_empty_page) auto
  with a show r: "scrape_vendor_eol_url get base_url max_pages = ([1, 2, 3, 4], Inr (df1 @ df2 @ df3))"
    by (simp add: upto_1_4 page_rows_eq)
  show "length (fst (scrape_vendor_eol_url get base_url max_pages)) = 4"
    by (simp add: r)
next
  assume a: "fetch_page get base_url 1 = Inr df1 \<and> df1 \<noteq> [] \<and>
      fetch_page get base_url 2 = Inr df2 \<and> df2 \<noteq> []"
  have ne: "nonempty_page get base_url p" if "1 \<le> p" "p \<le> 2" for p
  proof -
    from that have "p = 1 \<or> p = 2" by arith
    with a show ?thesis by (auto intro: nonempty_pageI)
  qed
  have "scrape_vendor_eol_url get base_url 2 =
          ([1..2], Inr (concat (map (page_rows get base_url) [1..2])))"
    using ne by (intro scrape_vendor_all_nonempty) auto
  with a show r: "scrape_vendor_eol_url get base_url 2 = ([1, 2], Inr (df1 @ df2))"
    by (simp add: upto_1_4 page_rows_eq)
  show "length (fst (scrape_vendor_eol_url get base_url 2)) = 2"
    by (simp add: r)
qed

lemmas extract_eval = extract_table_def find_table_def find_first_def find_all_def
  has_required_headers_def header_cells_def get_text_def row_of_tr_def List.map_filter_simps
  strip_def lstrip_def rstrip_def is_space_def

lemma example_site_pages:
  "fetch_page example_site u 1 = Inr [example_row ''M1'']"
  "fetch_page example_site u 2 = Inr [example_row ''M2'']"
  "fetch_page example_site u 3 = Inr [example_row ''M3'']"
  "fetch_page example_site u 4 = Inr []"
  by (simp_all add: fetch_page_def example_site_def example_page_def example_no_table_def
      example_row_def extract_eval)

lemma example_endless_site_pages:
  "fetch_page example_endless_site u p = Inr [example_row ''M'']"
  by (simp add: fetch_page_def example_endless_site_def example_page_def example_row_def
      extract_eval)

theorem scrape_vendor_pagination_witness:
  "scrape_vendor_eol_url example_site ''https://relutech.com/eol-eosl/cisco'' 50 =
     ([1, 2, 3, 4], Inr [example_row ''M1'', example_row ''M2'', example_row ''M3'']) \<and>
   length (fst (scrape_vendor_eol_url example_site ''https://relutech.com/eol-eosl/cisco'' 50)) = 4 \<and>
   scrape_vendor_eol_url example_endless_site ''https://relutech.com/eol-eosl/cisco'' 2 =
     ([1, 2], Inr [example_row ''M'', example_row ''M'']) \<and>
   length (fst (scrape_vendor_eol_url example_endless_site
     ''https://relutech.com/eol-eosl/cisco'' 2)) = 2"
  using scrape_vendor_pagination [of 4 50 example_site "''https://relutech.com/eol-eosl/cisco''"
      "[example_row ''M1'']" "[example_row ''M2'']" "[example_row ''M3'']"]
    scrape_vendor_pagination [of 1 2 example_endless_site
      "''https://relutech.com/eol-eosl/cisco''" "[example_row ''M'']" "[example_row ''M'']" "[]"]
  by (simp add: example_site_pages example_endless_site_pages)

section \<open>Properties of the table extraction\<close>

lemma extract_table_no_table:
  "find_table soup = None \<Longrightarrow> extract_table soup = Inr []"
  by (simp add: extract_table_def)

lemma find_table_None_iff:
  "find_table soup = None \<longleftrightarrow>
     (\<forall>t \<in> set (find_all soup ''table''). \<not> has_required_headers t)"
  by (auto simp: find_table_def find_None_iff)

lemma extract_table_raises_iff:
  "(\<exists>e. extract_table soup = Inl e) \<longleftrightarrow>
     (\<exists>table. find_table soup = Some table \<and> find_first table ''tbody'' = None)"
  by (auto simp: extract_table_def split: option.splits)

lemma extract_table_no_table_example: "extract_table example_no_table = Inr []"
  by (simp add: example_no_table_def extract_eval)

text \<open>
  Claim C5.  Table extraction is to return the empty sequence, and never raise, whenever
  the page does not have the expected structure.  It does so when no table has the three
  headers (\<open>extract_table_no_table\<close>), but a page whose matching table has no \<open>tbody\<close> tag
  makes it raise \<open>AttributeError\<close>: \<open>table.find("tbody")\<close> is \<open>None\<close> there, and the code
  calls \<open>find_all\<close> on it.
\<close>

theorem extract_table_no_tbody_raises:
  "find_table example_no_tbody \<noteq> None \<and>
   extract_table example_no_tbody = Inl AttributeError \<and>
   fetch_page (\<lambda>base_url params. Inr example_no_tbody) ''https://relutech.com/eol-eosl/cisco'' 1
     = Inl AttributeError"
  by (simp add: fetch_page_def example_no_tbody_def extract_eval)

section \<open>Properties of vendor discovery\<close>

lemma fallback_vendors_sorted: "sorted fallback_vendors \<and> distinct fallback_vendors"
  by (simp add: fallback_vendors_def)

lemma fallback_vendors_nonempty: "fallback_vendors \<noteq> []"
  by (simp add: fallback_vendors_def)

lemmas discovery_eval = get_unique_eol_vendors_def get_unique_children_def children_of_def
  child_of_url_def child_of_loc_def List.map_filter_simps BASE_PATH_def startswith_def
  strip_def lstrip_def rstrip_def is_space_def

text \<open>
  Claim C6.  Whatever the sitemap collaborator does, vendor discovery returns a list that
  is not empty and is sorted in ascending string order.  When the fetch or the parse
  raises an exception, and when the parse succeeds but the loop finds no vendor
  identifier, the list is the hardcoded fallback list.  The function has no other
  outcome: it returns a list for every behaviour of the collaborator.
\<close>

theorem vendor_discovery_never_empty:
  "get_unique_eol_vendors sm \<noteq> [] \<and>
   sorted (get_unique_eol_vendors sm) \<and>
   get_unique_eol_vendors (Inl e) = fallback_vendors \<and>
   (children_of urls = [] \<longrightarrow> get_unique_eol_vendors (Inr urls) = fallback_vendors)"
proof (intro conjI impI)
  show "get_unique_eol_vendors sm \<noteq> []"
  proof (cases sm)
    case (Inl x)
    then show ?thesis by (simp add: get_unique_eol_vendors_def fallback_vendors_nonempty)
  next
    case (Inr us)
    show ?thesis
    proof (cases "children_of us = []")
      case True
      with Inr show ?thesis by (simp add: get_unique_eol_vendors_def fallback_vendors_nonempty)
    next
      case False
      then have "set (sort (children_of us)) \<noteq> {}" by simp
      then have "sort (children_of us) \<noteq> []" by (simp only: set_empty not_False_eq_True)
      with Inr False show ?thesis by (simp add: get_unique_eol_vendors_def)
    qed
  qed
  show "sorted (get_unique_eol_vendors sm)"
    by (cases sm) (simp_all add: get_unique_eol_vendors_def fallback_vendors_sorted)
  show "get_unique_eol_vendors (Inl e) = fallback_vendors"
    by (simp add: get_unique_eol_vendors_def)
  show "get_unique_eol_vendors (Inr urls) = fallback_vendors" if "children_of urls = []"
    using that by (simp add: get_unique_eol_vendors_def)
qed

theorem vendor_discovery_never_empty_witness:
  "children_of [Some (Some ''https://relutech.com/about-us/''), None, Some None,
                Some (Some ''''), Some (Some ''https://relutech.com/eol-eosl/'')] = [] \<and>
   get_unique_eol_vendors
     (Inr [Some (Some ''https://relutech.com/about-us/''), None, Some None,
           Some (Some ''''), Some (Some ''https://relutech.com/eol-eosl/'')]) =
     [''cisco'', ''dell'', ''emc'', ''emc-ecomm'', ''hpe'', ''ibm'', ''juniper'',
      ''netapp-ecomm'', ''nimble'', ''sun-oracle''] \<and>
   get_unique_eol_vendors (Inl Timeout) =
     [''cisco'', ''dell'', ''emc'', ''emc-ecomm'', ''hpe'', ''ibm'', ''juniper'',
      ''netapp-ecomm'', ''nimble'', ''sun-oracle''] \<and>
   get_unique_eol_vendors (Inl Timeout) \<noteq> [] \<and>
   sorted (get_unique_eol_vendors (Inl Timeout))"
proof -
  have c: "children_of [Some (Some ''https://relutech.com/about-us/''), None, Some None,
                Some (Some ''''), Some (Some ''https://relutech.com/eol-eosl/'')] = []"
    by (simp add: discovery_eval)
  show ?thesis
    using c vendor_discovery_never_empty [of "Inl Timeout" Timeout
        "[Some (Some ''https://relutech.com/about-us/''), None, Some None,
          Some (Some ''''), Some (Some ''https://relutech.com/eol-eosl/'')]"]
    by (simp add: fallback_vendors_def)
qed


section \<open>Properties of the date normalisation\<close>

lemmas normalize_eval = normalize_date_def parse_date_robust_def to_datetime_format_def
  in_timestamp_range_def midnight_def match_format_def month_abbr_def month_name_def skip_spaces_def digit_val_def
  two_digit_day_def days_in_month_def is_leap_def lower_def lower_char_def
  strip_def lstrip_def rstrip_def is_space_def convert_to_utc_iso_def isoformat_def
  zero_pad_def digit_char_def utcoffset_text_def replace_tzinfo_utc_def astimezone_utc_def
  upt_rec

subsection \<open>The month-name formats\<close>














































subsection \<open>Null results and exceptions\<close>

lemma normalize_null_inputs:
  "normalize_date lib None = Inr None"
  "strip raw = [] \<Longrightarrow> normalize_date lib (Some raw) = Inr None"
  by (simp_all add: normalize_date_def parse_date_robust_def convert_to_utc_iso_def)

lemma normalize_blank_examples:
  "normalize_date lib (Some '''') = Inr None"
  "normalize_date lib (Some ''   '') = Inr None"
  by (simp_all add: normalize_null_inputs strip_def lstrip_def rstrip_def is_space_def)

lemma normalize_all_strategies_fail:
  assumes "to_datetime_format month_abbr (strip raw) = None"
    and "to_datetime_format month_name (strip raw) = None"
    and "to_datetime_flexible lib (strip raw) = None"
    and "\<not> HAS_DATEUTIL lib \<or> (\<exists>e. dateutil_parse lib (strip raw) = Inl e \<and> caught e)"
  shows "normalize_date lib (Some raw) = Inr None"
  using assms
  by (auto simp: normalize_date_def parse_date_robust_def convert_to_utc_iso_def Let_def)

lemma normalize_raises_iff:
  "normalize_date lib cell = Inl e \<longleftrightarrow>
     (\<exists>raw. cell = Some raw \<and> strip raw \<noteq> [] \<and>
        to_datetime_format month_abbr (strip raw) = None \<and>
        to_datetime_format month_name (strip raw) = None \<and>
        to_datetime_flexible lib (strip raw) = None \<and>
        HAS_DATEUTIL lib \<and> dateutil_parse lib (strip raw) = Inl e \<and> \<not> caught e)"
  by (cases cell)
     (auto simp: normalize_date_def parse_date_robust_def Let_def strip_def lstrip_def rstrip_def
           split: option.splits sum.splits if_splits)

text \<open>
  Claim C8.  Normalisation is to return null, and never raise, for the empty string, for
  \<open>None\<close>, for a blank string and for every string that all four strategies reject.  It
  returns null for the first three (\<open>normalize_null_inputs\<close>) and when the last strategy
  fails with \<open>ValueError\<close>, \<open>TypeError\<close> or \<open>AttributeError\<close>
  (\<open>normalize_all_strategies_fail\<close>).  But \<open>dateutil\<close> is documented to raise
  \<open>OverflowError\<close> too (for \<open>"08335394550"\<close> it reads the year 8335394550), which the \<open>except\<close>
  clause does not name: the exception leaves \<open>parse_date_robust\<close>, and with it
  \<open>post_process_eol_df\<close>.
\<close>

theorem normalize_overflow_raises:
  "to_datetime_format month_abbr ''08335394550'' = None \<and>
   to_datetime_format month_name ''08335394550'' = None \<and>
   normalize_date (rejecting_lib OverflowError) (Some ''08335394550'') = Inl OverflowError \<and>
   post_process_eol_df (rejecting_lib OverflowError)
     [\<lparr>model = ''ModelX'', eol_date = Some ''08335394550'', eosl_date = Some '''',
       vendor = ''cisco''\<rparr>] = Inl OverflowError \<and>
   normalize_date (rejecting_lib ValueError) (Some ''08335394550'') = Inr None"
  by (simp add: post_process_eol_df_def normalize_date_def parse_date_robust_def rejecting_lib_def
      caught_def to_datetime_format_def match_format_def month_abbr_def month_name_def
      lower_def lower_char_def strip_def lstrip_def rstrip_def is_space_def
      convert_to_utc_iso_def)

section \<open>The merge rule\<close>

lemma first_non_null_none:
  "list_all (\<lambda>x. \<not> non_blank (f x)) g \<Longrightarrow> first_non_null (map f g) = None"
  by (induction g) (auto simp: non_blank_def split: option.splits)

lemma first_non_null_first:
  "\<not> list_all (\<lambda>x. \<not> non_blank (f x)) g \<Longrightarrow>
     \<exists>pre x post. g = pre @ x # post \<and> list_all (\<lambda>y. \<not> non_blank (f y)) pre \<and>
        non_blank (f x) \<and> first_non_null (map f g) = f x"
proof (induction g)
  case Nil
  then show ?case by simp
next
  case (Cons a g)
  show ?case
  proof (cases "non_blank (f a)")
    case True
    then have "first_non_null (map f (a # g)) = f a"
      by (auto simp: non_blank_def split: option.splits)
    with True have "a # g = [] @ a # g \<and> list_all (\<lambda>y. \<not> non_blank (f y)) [] \<and>
        non_blank (f a) \<and> first_non_null (map f (a # g)) = f a"
      by simp
    then show ?thesis by blast
  next
    case False
    with Cons.prems have "\<not> list_all (\<lambda>x. \<not> non_blank (f x)) g" by simp
    from Cons.IH [OF this] obtain pre x post where
      h: "g = pre @ x # post" "list_all (\<lambda>y. \<not> non_blank (f y)) pre" "non_blank (f x)"
         "first_non_null (map f g) = f x"
      by blast
    from False have "first_non_null (map f (a # g)) = first_non_null (map f g)"
      by (auto simp: non_blank_def split: option.splits)
    with h False have "a # g = (a # pre) @ x # post \<and>
        list_all (\<lambda>y. \<not> non_blank (f y)) (a # pre) \<and> non_blank (f x) \<and>
        first_non_null (map f (a # g)) = f x"
      by simp
    then show ?thesis by blast
  qed
qed

lemma merged_row_fields:
  assumes "r \<in> set (remove_duplicates_and_merge df)"
  shows "eol_date r = first_non_null (map eol_date (group_rows df (group_key r)))"
    and "eosl_date r = first_non_null (map eosl_date (group_rows df (group_key r)))"
proof -
  from assms obtain k where "r = agg df k"
    by (auto simp: remove_duplicates_and_merge_def)
  then show "eol_date r = first_non_null (map eol_date (group_rows df (group_key r)))"
    and "eosl_date r = first_non_null (map eosl_date (group_rows df (group_key r)))"
    by (simp_all add: group_key_agg) (simp_all add: agg_def)
qed

lemmas merge_eval = remove_duplicates_and_merge_def agg_def group_rows_def group_key_def
  strip_def lstrip_def rstrip_def is_space_def

lemma group_rows_explicit:
  "group_rows df (group_key r) = filter (\<lambda>x. vendor x = vendor r \<and> model x = model r) df"
  by (simp add: group_rows_def group_key_def)

text \<open>
  Claim C3.  Take a row \<open>r\<close> of the merged output and its group: the input rows that have
  the vendor and the model of \<open>r\<close>, in their original order.  For each of the two date
  fields: if some member of the group has a value that is neither null nor blank, the field
  of \<open>r\<close> is the value of the first such member (every member before it has a null or
  blank value); and if every member's value is null or blank, the field of \<open>r\<close> is null.
  In particular the two rows (CISCO, ModelX, "Aug 1, 2020", "") and (CISCO, ModelX, "",
  "Sep 1, 2021") are merged, with their dates normalised first, into (CISCO, ModelX,
  2020-08-01T00:00:00+00:00, 2021-09-01T00:00:00+00:00); and five rows of three keys that
  arrive interleaved are merged key by key, each field from the rows of its own key only.
\<close>

theorem merge_takes_first_non_blank:
  "(\<forall>r \<in> set (remove_duplicates_and_merge df).
      (\<not> list_all (\<lambda>x. \<not> non_blank (eol_date x))
            (filter (\<lambda>x. vendor x = vendor r \<and> model x = model r) df) \<longrightarrow>
         (\<exists>pre x post.
            filter (\<lambda>x. vendor x = vendor r \<and> model x = model r) df = pre @ x # post \<and>
            list_all (\<lambda>y. \<not> non_blank (eol_date y)) pre \<and> non_blank (eol_date x) \<and>
            eol_date r = eol_date x)) \<and>
      (list_all (\<lambda>x. \<not> non_blank (eol_date x))
            (filter (\<lambda>x. vendor x = vendor r \<and> model x = model r) df) \<longrightarrow>
         eol_date r = None) \<and>
      (\<not> list_all (\<lambda>x. \<not> non_blank (eosl_date x))
            (filter (\<lambda>x. vendor x = vendor r \<and> model x = model r) df) \<longrightarrow>
         (\<exists>pre x post.
            filter (\<lambda>x. vendor x = vendor r \<and> model x = model r) df = pre @ x # post \<and>
            list_all (\<lambda>y. \<not> non_blank (eosl_date y)) pre \<and> non_blank (eosl_date x) \<and>
            eosl_date r = eosl_date x)) \<and>
      (list_all (\<lambda>x. \<not> non_blank (eosl_date x))
            (filter (\<lambda>x. vendor x = vendor r \<and> model x = model r) df) \<longrightarrow>
         eosl_date r = None)) \<and>
   post_process_eol_df lib example_duplicates = Inr [example_merged] \<and>
   post_process_eol_df lib example_mixed = Inr example_mixed_merged"
proof (intro conjI ballI impI)
  fix r
  assume r: "r \<in> set (remove_duplicates_and_merge df)"
  let ?g = "filter (\<lambda>x. vendor x = vendor r \<and> model x = model r) df"
  have eol: "eol_date r = first_non_null (map eol_date ?g)"
    and eosl: "eosl_date r = first_non_null (map eosl_date ?g)"
    using merged_row_fields [OF r] by (simp_all add: group_rows_explicit)
  show "\<exists>pre x post. ?g = pre @ x # post \<and>
            list_all (\<lambda>y. \<not> non_blank (eol_date y)) pre \<and> non_blank (eol_date x) \<and>
            eol_date r = eol_date x"
    if "\<not> list_all (\<lambda>x. \<not> non_blank (eol_date x)) ?g"
    using first_non_null_first [OF that] eol by simp
  show "eol_date r = None" if "list_all (\<lambda>x. \<not> non_blank (eol_date x)) ?g"
    using first_non_null_none [OF that] eol by simp
  show "\<exists>pre x post. ?g = pre @ x # post \<and>
            list_all (\<lambda>y. \<not> non_blank (eosl_date y)) pre \<and> non_blank (eosl_date x) \<and>
            eosl_date r = eosl_date x"
    if "\<not> list_all (\<lambda>x. \<not> non_blank (eosl_date x)) ?g"
    using first_non_null_first [OF that] eosl by simp
  show "eosl_date r = None" if "list_all (\<lambda>x. \<not> non_blank (eosl_date x)) ?g"
    using first_non_null_none [OF that] eosl by simp
next
  show "post_process_eol_df lib example_duplicates = Inr [example_merged]"
    by (simp add: post_process_eol_df_def example_duplicates_def example_merged_def
        normalize_eval upper_def upper_char_def set_dates_def
        remove_duplicates_and_merge_def agg_def group_rows_def group_key_def)
  show "post_process_eol_df lib example_mixed = Inr example_mixed_merged"
    by (simp add: post_process_eol_df_def example_mixed_def example_mixed_merged_def
        normalize_eval upper_def upper_char_def set_dates_def
        remove_duplicates_and_merge_def agg_def group_rows_def group_key_def)
qed

lemma example_mixed_merge:
  "remove_duplicates_and_merge example_mixed_normalized = example_mixed_merged"
  by (simp add: example_mixed_normalized_def example_mixed_merged_def merge_eval)

lemma example_mixed_groups:
  "filter (\<lambda>x. vendor x = ''CISCO'' \<and> model x = ''ModelX'') example_mixed_normalized =
     [example_mixed_normalized ! 0, example_mixed_normalized ! 3]"
  "filter (\<lambda>x. vendor x = ''DELL'' \<and> model x = ''ModelX'') example_mixed_normalized =
     [example_mixed_normalized ! 2]"
  by (simp_all add: example_mixed_normalized_def)

lemma example_mixed_blank:
  "\<not> non_blank (eosl_date (example_mixed_normalized ! 0))"
  "non_blank (eosl_date (example_mixed_normalized ! 3))"
  "\<not> non_blank (eol_date (example_mixed_normalized ! 2))"
  by (simp_all add: example_mixed_normalized_def non_blank_def strip_def lstrip_def rstrip_def
      is_space_def)

theorem merge_takes_first_non_blank_witness:
  "remove_duplicates_and_merge example_mixed_normalized = example_mixed_merged \<and>
   filter (\<lambda>x. vendor x = ''CISCO'' \<and> model x = ''ModelX'') example_mixed_normalized =
     [example_mixed_normalized ! 0, example_mixed_normalized ! 3] \<and>
   \<not> non_blank (eosl_date (example_mixed_normalized ! 0)) \<and>
   non_blank (eosl_date (example_mixed_normalized ! 3)) \<and>
   eosl_date (example_mixed_merged ! 0) = eosl_date (example_mixed_normalized ! 3) \<and>
   filter (\<lambda>x. vendor x = ''DELL'' \<and> model x = ''ModelX'') example_mixed_normalized =
     [example_mixed_normalized ! 2] \<and>
   \<not> non_blank (eol_date (example_mixed_normalized ! 2)) \<and>
   eol_date (example_mixed_merged ! 2) = None"
proof -
  let ?c = "example_mixed_merged ! 0" and ?d = "example_mixed_merged ! 2"
  have key: "vendor ?c = ''CISCO''" "model ?c = ''ModelX''"
    "vendor ?d = ''DELL''" "model ?d = ''ModelX''"
    by (simp_all add: example_mixed_merged_def)
  have mem: "?c \<in> set (remove_duplicates_and_merge example_mixed_normalized)"
    "?d \<in> set (remove_duplicates_and_merge example_mixed_normalized)"
    by (simp_all add: example_mixed_merge) (simp_all add: example_mixed_merged_def)
  note rule = merge_takes_first_non_blank [of example_mixed_normalized
      "rejecting_lib ValueError", THEN conjunct1, THEN bspec]
  from rule [OF mem(1)] have
    "\<exists>pre x post.
        [example_mixed_normalized ! 0, example_mixed_normalized ! 3] = pre @ x # post \<and>
        list_all (\<lambda>y. \<not> non_blank (eosl_date y)) pre \<and> non_blank (eosl_date x) \<and>
        eosl_date ?c = eosl_date x"
    by (simp add: key example_mixed_groups example_mixed_blank)
  then obtain pre x post where
    px: "[example_mixed_normalized ! 0, example_mixed_normalized ! 3] = pre @ x # post"
    "list_all (\<lambda>y. \<not> non_blank (eosl_date y)) pre" "non_blank (eosl_date x)"
    "eosl_date ?c = eosl_date x"
    by blast
  from px(1) have "(pre = [] \<and> x = example_mixed_normalized ! 0) \<or>
      (pre = [example_mixed_normalized ! 0] \<and> x = example_mixed_normalized ! 3)"
    by (cases pre) (auto simp: Cons_eq_append_conv)
  with px(3) example_mixed_blank(1) have "x = example_mixed_normalized ! 3" by auto
  with px(4) have c: "eosl_date ?c = eosl_date (example_mixed_normalized ! 3)" by simp
  from rule [OF mem(2)] have d: "eol_date ?d = None"
    by (simp add: key example_mixed_groups example_mixed_blank)
  show ?thesis
    using c d by (simp add: example_mixed_merge example_mixed_groups example_mixed_blank)
qed

end
